theory Spec2Isabelle
  imports Main "HOL-Library.Monad_Syntax"
begin

section \<open>The semilattice interface of lattices/lattice.h\<close>

subsection \<open>The class template \<open>Lattice<L, T>\<close>\<close>

text \<open>
  \<^verbatim>\<open>template <typename L, typename T> class Lattice\<close> declares two pure virtual
  methods, \<^verbatim>\<open>virtual const T& get() const = 0\<close> and
  \<^verbatim>\<open>virtual void join(const L& other) = 0\<close>. An implementing class \<open>L\<close> is
  represented by its two overriders, acting on the state \<open>'l\<close> of an object of the
  class: \<open>get L s\<close> is what \<^verbatim>\<open>get()\<close> returns on a receiver in state \<open>s\<close>
  (the method is \<^verbatim>\<open>const\<close>), and \<open>join L s t\<close> is the state of the receiver after
  \<^verbatim>\<open>join(other)\<close>, run on a receiver in state \<open>s\<close> with \<^verbatim>\<open>other\<close> in
  state \<open>t\<close> (\<^verbatim>\<open>other\<close> is a reference to \<^verbatim>\<open>const\<close>).

  The domain type \<open>T\<close> is the type \<open>'t\<close>; its \<^verbatim>\<open>==\<close> is the equality of \<open>'t\<close>.
  Its \<^verbatim>\<open>!=\<close> is an operator of its own, which the header calls as such: it is a
  parameter \<open>ne\<close> of the model.
\<close>

record ('l, 't) Lattice =
  get :: "'l \<Rightarrow> 't"
  join :: "'l \<Rightarrow> 'l \<Rightarrow> 'l"

subsection \<open>Objects and references\<close>

text \<open>
  The objects of class \<open>L\<close> that are alive form a stack: a list of object states. A
  reference (\<^verbatim>\<open>const T&\<close>, or the receiver of a method call) is a position in
  the list. A function's by-value parameter is a new object on top of the stack for the
  time of the call. A position beyond the stack denotes no object; a call through it has
  no result (\<open>None\<close>).
\<close>

type_synonym ref = nat

type_synonym 'l store = "'l list"

text \<open>
  Modelled from the spec: the overrider of \<^verbatim>\<open>get\<close> in a concrete lattice class
  (lattice.h only declares the method). It reads the receiver and has no side effect:
  the store after the call is the store before it.
\<close>

definition call_get :: "('l, 't) Lattice \<Rightarrow> 'l store \<Rightarrow> ref \<Rightarrow> ('t \<times> 'l store) option" where
  "call_get L st self =
     (if self < length st then Some (get L (st ! self), st) else None)"

text \<open>
  Modelled from the spec: the overrider of \<^verbatim>\<open>join\<close> in a concrete lattice class
  (lattice.h only declares the method). It mutates the receiver in place, to the join of
  the receiver's prior state and the state of \<^verbatim>\<open>other\<close>, and writes to no other
  object. When \<^verbatim>\<open>other\<close> refers to the receiver itself, the state read through it is
  the receiver's.
\<close>

definition call_join :: "('l, 't) Lattice \<Rightarrow> 'l store \<Rightarrow> ref \<Rightarrow> ref \<Rightarrow> 'l store option" where
  "call_join L st self other =
     (if self < length st \<and> other < length st
      then Some (st[self := join L (st ! self) (st ! other)])
      else None)"

subsection \<open>The comparison operators\<close>

text \<open>
  \<^verbatim>\<open>operator==(const T& l, const T& r) { return l.get() == r.get(); }\<close>
\<close>

definition operator_eq :: "('l, 't) Lattice \<Rightarrow> 'l store \<Rightarrow> ref \<Rightarrow> ref \<Rightarrow> (bool \<times> 'l store) option" where
  "operator_eq L st l r = do {
     (a, st1) \<leftarrow> call_get L st l;
     (b, st2) \<leftarrow> call_get L st1 r;
     Some (a = b, st2)
   }"

text \<open>
  \<^verbatim>\<open>operator!=(const T& l, const T& r) { return l.get() != r.get(); }\<close>

  The comparison is the \<^verbatim>\<open>!=\<close> of the domain type, \<open>ne\<close>; the operator does not
  go through \<^verbatim>\<open>operator==\<close>.
\<close>

definition operator_ne :: "('t \<Rightarrow> 't \<Rightarrow> bool) \<Rightarrow> ('l, 't) Lattice \<Rightarrow> 'l store \<Rightarrow> ref \<Rightarrow> ref \<Rightarrow> (bool \<times> 'l store) option" where
  "operator_ne ne L st l r = do {
     (a, st1) \<leftarrow> call_get L st l;
     (b, st2) \<leftarrow> call_get L st1 r;
     Some (ne a b, st2)
   }"

text \<open>
  A domain type whose \<^verbatim>\<open>!=\<close> is the logical negation of its \<^verbatim>\<open>==\<close>, as for the
  built-in and the standard library types.
\<close>

definition ne_complements_eq :: "('t \<Rightarrow> 't \<Rightarrow> bool) \<Rightarrow> bool" where
  "ne_complements_eq ne = (\<forall>a b. ne a b = (a \<noteq> b))"

text \<open>
  \<^verbatim>\<open>operator<=(T l, const T& r) { l.join(r); return l.get() == r.get(); }\<close>

  The left operand is passed by value: the parameter \<^verbatim>\<open>l\<close> is a new object at
  the position \<open>p\<close> on top of the stack, copy-constructed from the caller's argument
  (the object at \<open>l\<close>) with the same state. The body works on that object, which is
  destroyed when the operator returns. The right operand is the caller's object itself.
\<close>

definition operator_le :: "('l, 't) Lattice \<Rightarrow> 'l store \<Rightarrow> ref \<Rightarrow> ref \<Rightarrow> (bool \<times> 'l store) option" where
  "operator_le L st l r =
     (if l < length st \<and> r < length st then do {
        let p = length st;
        let st0 = st @ [st ! l];
        st1 \<leftarrow> call_join L st0 p r;
        (a, st2) \<leftarrow> call_get L st1 p;
        (b, st3) \<leftarrow> call_get L st2 r;
        Some (a = b, take p st3)
      } else None)"

subsection \<open>The induced order and the semilattice laws\<close>

text \<open>
  The header's comment: a join operator induces the order \<open>x <= y\<close> if and only if
  \<open>join(x, y) == y\<close>. On lattice objects \<^verbatim>\<open>==\<close> is the operator above, the
  equality of the values of \<^verbatim>\<open>get\<close>. This definition follows those words; it is
  compared with \<open>operator_le\<close> below.
\<close>

definition induced_order :: "('l, 't) Lattice \<Rightarrow> 'l \<Rightarrow> 'l \<Rightarrow> bool" where
  "induced_order L x y = (get L (join L x y) = get L y)"

text \<open>
  The laws of the header's comment, with its \<^verbatim>\<open>==\<close> on lattice objects:
  \<^item> idempotent: for all \<open>x\<close>, \<open>join(x, x) == x\<close>;
  \<^item> commutative: for all \<open>x\<close>, \<open>y\<close>, \<open>join(x, y) == join(y, x)\<close>;
  \<^item> associative: for all \<open>x\<close>, \<open>y\<close>, \<open>z\<close>, \<open>join(x, join(y, z)) == join(join(x, y), z)\<close>.
\<close>

definition join_idempotent :: "('l, 't) Lattice \<Rightarrow> bool" where
  "join_idempotent L = (\<forall>x. get L (join L x x) = get L x)"

definition join_commutative :: "('l, 't) Lattice \<Rightarrow> bool" where
  "join_commutative L = (\<forall>x y. get L (join L x y) = get L (join L y x))"

definition join_associative :: "('l, 't) Lattice \<Rightarrow> bool" where
  "join_associative L =
     (\<forall>x y z. get L (join L x (join L y z)) = get L (join L (join L x y) z))"

text \<open>
  \<open>join\<close> respects the observable value: objects that \<^verbatim>\<open>get\<close> cannot tell apart
  have joins that \<^verbatim>\<open>get\<close> cannot tell apart, so that \<open>join\<close> is an operation on the
  values of the domain type. This holds of every class whose whole state is the value
  that \<^verbatim>\<open>get\<close> returns.
\<close>

definition join_respects_get :: "('l, 't) Lattice \<Rightarrow> bool" where
  "join_respects_get L =
     (\<forall>x x' y y'. get L x = get L x' \<longrightarrow> get L y = get L y' \<longrightarrow>
        get L (join L x y) = get L (join L x' y'))"

subsection \<open>Concrete lattice classes\<close>

text \<open>
  Modelled from the spec: the integer-max lattice of the spec's worked examples (the
  concrete lattice classes are not part of lattice.h). The object holds one integer,
  \<^verbatim>\<open>get\<close> returns it and \<^verbatim>\<open>join\<close> keeps the larger one.
\<close>

definition MaxLattice :: "(int, int) Lattice" where
  "MaxLattice = \<lparr>get = (\<lambda>s. s), join = (\<lambda>s t. max s t)\<rparr>"

text \<open>
  \<open>NullableMax\<close>: a max register over a nullable integer, for use as a test input
  below. The object holds an integer or null, \<^verbatim>\<open>get\<close> returns it and \<^verbatim>\<open>join\<close>
  keeps the larger integer, null being below every integer. The \<^verbatim>\<open>!=\<close> of the
  nullable integer, \<open>nullable_ne\<close>, compares the integers when both operands hold one and
  answers false when an operand is null.
\<close>

definition nullable_ne :: "int option \<Rightarrow> int option \<Rightarrow> bool" where
  "nullable_ne a b = (case (a, b) of (Some x, Some y) \<Rightarrow> x \<noteq> y | _ \<Rightarrow> False)"

definition NullableMax :: "(int option, int option) Lattice" where
  "NullableMax =
     \<lparr>get = (\<lambda>s. s),
      join = (\<lambda>s t. case (s, t) of
                (Some x, Some y) \<Rightarrow> Some (max x y)
              | (None, _) \<Rightarrow> t
              | (_, None) \<Rightarrow> s)\<rparr>"

text \<open>
  Two classes that implement the interface and satisfy the three laws, for use as test
  inputs below. Neither respects the observable value.

  \<open>Mod3Counter\<close>: the object counts modulo three, \<^verbatim>\<open>join\<close> adds the other count
  and \<^verbatim>\<open>get\<close> tells only whether the count is zero.
\<close>

definition Mod3Counter :: "(nat, bool) Lattice" where
  "Mod3Counter = \<lparr>get = (\<lambda>s. s mod 3 = 0), join = (\<lambda>s t. (s + t) mod 3)\<rparr>"

text \<open>
  \<open>ParityOfMax\<close>: the object holds a natural number, \<^verbatim>\<open>join\<close> keeps the larger
  one and \<^verbatim>\<open>get\<close> returns only its parity.
\<close>

definition ParityOfMax :: "(nat, nat) Lattice" where
  "ParityOfMax = \<lparr>get = (\<lambda>s. s mod 2), join = (\<lambda>s t. max s t)\<rparr>"

section \<open>Properties\<close>

subsection \<open>What the operators return\<close>

lemma call_get_Some:
  "self < length st \<Longrightarrow> call_get L st self = Some (get L (st ! self), st)"
  by (simp add: call_get_def)

lemma call_join_Some:
  "self < length st \<Longrightarrow> other < length st \<Longrightarrow>
   call_join L st self other = Some (st[self := join L (st ! self) (st ! other)])"
  by (simp add: call_join_def)

lemma operator_eq_Some:
  "l < length st \<Longrightarrow> r < length st \<Longrightarrow>
   operator_eq L st l r = Some (get L (st ! l) = get L (st ! r), st)"
  by (simp add: operator_eq_def call_get_Some)

lemma operator_ne_Some:
  "l < length st \<Longrightarrow> r < length st \<Longrightarrow>
   operator_ne ne L st l r = Some (ne (get L (st ! l)) (get L (st ! r)), st)"
  by (simp add: operator_ne_def call_get_Some)

lemma operator_eq_None:
  "\<not> (l < length st \<and> r < length st) \<Longrightarrow> operator_eq L st l r = None"
  by (auto simp add: operator_eq_def call_get_def)

lemma operator_ne_None:
  "\<not> (l < length st \<and> r < length st) \<Longrightarrow> operator_ne ne L st l r = None"
  by (auto simp add: operator_ne_def call_get_def)

lemma parameter_joined:
  assumes "r < length st"
  shows "call_join L (st @ [s]) (length st) r = Some (st @ [join L s (st ! r)])"
proof -
  have "(st @ [s]) ! r = st ! r"
    using assms by (simp add: nth_append)
  then show ?thesis
    using assms by (simp add: call_join_def)
qed

lemma operator_le_Some:
  assumes "l < length st" and "r < length st"
  shows "operator_le L st l r = Some (induced_order L (st ! l) (st ! r), st)"
proof -
  let ?s = "join L (st ! l) (st ! r)"
  have get_p: "call_get L (st @ [?s]) (length st) = Some (get L ?s, st @ [?s])"
    by (simp add: call_get_def)
  have get_r: "call_get L (st @ [?s]) r = Some (get L (st ! r), st @ [?s])"
    using assms(2) by (simp add: call_get_def nth_append)
  show ?thesis
    using assms
    by (simp add: operator_le_def parameter_joined get_p get_r induced_order_def)
qed

lemma operator_le_None:
  "\<not> (l < length st \<and> r < length st) \<Longrightarrow> operator_le L st l r = None"
  by (auto simp add: operator_le_def)

lemma operator_le_SomeD:
  "operator_le L st l r = Some res \<Longrightarrow> l < length st \<and> r < length st"
  by (auto simp add: operator_le_def split: if_splits)

lemma operator_le_TrueD:
  assumes "operator_le L st l r = Some (True, st')"
  shows "l < length st" and "r < length st" and "induced_order L (st ! l) (st ! r)"
proof -
  show valid: "l < length st" "r < length st"
    using operator_le_SomeD [OF assms] by simp_all
  have "Some (induced_order L (st ! l) (st ! r), st) = Some (True, st')"
    using operator_le_Some [OF valid, of L, symmetric] assms by (rule trans)
  then show "induced_order L (st ! l) (st ! r)"
    by auto
qed

subsection \<open>The laws in the concrete classes\<close>

lemma MaxLattice_idempotent: "join_idempotent MaxLattice"
  by (simp add: join_idempotent_def MaxLattice_def)

lemma MaxLattice_commutative: "join_commutative MaxLattice"
  by (simp add: join_commutative_def MaxLattice_def max.commute)

lemma MaxLattice_associative: "join_associative MaxLattice"
  by (simp add: join_associative_def MaxLattice_def max.assoc)

lemma MaxLattice_respects_get: "join_respects_get MaxLattice"
  by (simp add: join_respects_get_def MaxLattice_def)

lemma Mod3Counter_idempotent: "join_idempotent Mod3Counter"
proof -
  have "((s + s) mod 3 mod 3 = 0) = (s mod 3 = 0)" for s :: nat
    by presburger
  then show ?thesis
    by (simp add: join_idempotent_def Mod3Counter_def)
qed

lemma Mod3Counter_commutative: "join_commutative Mod3Counter"
  by (simp add: join_commutative_def Mod3Counter_def add.commute)

lemma Mod3Counter_associative: "join_associative Mod3Counter"
proof -
  have "(x + (y + z) mod 3) mod 3 = ((x + y) mod 3 + z) mod 3" for x y z :: nat
    by presburger
  then show ?thesis
    by (simp add: join_associative_def Mod3Counter_def)
qed

lemma ParityOfMax_idempotent: "join_idempotent ParityOfMax"
  by (simp add: join_idempotent_def ParityOfMax_def)

lemma ParityOfMax_commutative: "join_commutative ParityOfMax"
  by (simp add: join_commutative_def ParityOfMax_def max.commute)

lemma ParityOfMax_associative: "join_associative ParityOfMax"
  by (simp add: join_associative_def ParityOfMax_def max.assoc)

subsection \<open>The order on lattice states\<close>

lemma induced_order_refl:
  "join_idempotent L \<Longrightarrow> induced_order L x x"
  by (simp add: join_idempotent_def induced_order_def)

lemma induced_order_antisym:
  assumes "join_commutative L" and "induced_order L x y" and "induced_order L y x"
  shows "get L x = get L y"
proof -
  have "get L x = get L (join L y x)"
    using assms(3) by (simp add: induced_order_def)
  also have "\<dots> = get L (join L x y)"
    using assms(1) by (simp add: join_commutative_def)
  also have "\<dots> = get L y"
    using assms(2) by (simp add: induced_order_def)
  finally show ?thesis .
qed

lemma respects_left:
  "join_respects_get L \<Longrightarrow> get L x = get L x' \<Longrightarrow> get L (join L x y) = get L (join L x' y)"
  unfolding join_respects_get_def by blast

lemma respects_right:
  "join_respects_get L \<Longrightarrow> get L y = get L y' \<Longrightarrow> get L (join L x y) = get L (join L x y')"
  unfolding join_respects_get_def by blast

text \<open>
  A class whose \<^verbatim>\<open>get\<close> determines the object's state (the state is the value
  returned) respects the observable value.
\<close>

lemma inj_get_respects:
  assumes "inj (get L)"
  shows "join_respects_get L"
  unfolding join_respects_get_def
proof (intro allI impI)
  fix x x' y y'
  assume "get L x = get L x'" and "get L y = get L y'"
  with assms have "x = x'" and "y = y'"
    by (simp_all add: inj_eq)
  then show "get L (join L x y) = get L (join L x' y')"
    by simp
qed

lemma induced_order_join_left:
  assumes "join_idempotent L" and "join_associative L" and "join_respects_get L"
  shows "induced_order L x (join L x y)"
proof -
  have "get L (join L x (join L x y)) = get L (join L (join L x x) y)"
    using assms(2) by (simp add: join_associative_def)
  also have "\<dots> = get L (join L x y)"
  proof (rule respects_left [OF assms(3)])
    show "get L (join L x x) = get L x"
      using assms(1) by (simp add: join_idempotent_def)
  qed
  finally show ?thesis
    by (simp add: induced_order_def)
qed

lemma induced_order_join_right:
  assumes "join_idempotent L" and "join_commutative L" and "join_associative L"
    and "join_respects_get L"
  shows "induced_order L y (join L x y)"
proof -
  have "get L (join L y (join L x y)) = get L (join L (join L x y) y)"
    using assms(2) by (simp add: join_commutative_def)
  also have "\<dots> = get L (join L x (join L y y))"
    using assms(3) by (simp add: join_associative_def)
  also have "\<dots> = get L (join L x y)"
  proof (rule respects_right [OF assms(4)])
    show "get L (join L y y) = get L y"
      using assms(1) by (simp add: join_idempotent_def)
  qed
  finally show ?thesis
    by (simp add: induced_order_def)
qed

lemma induced_order_trans:
  assumes "join_associative L" and "join_respects_get L"
    and "induced_order L x y" and "induced_order L y z"
  shows "induced_order L x z"
proof -
  have yz: "get L (join L y z) = get L z"
    using assms(4) by (simp add: induced_order_def)
  have xy: "get L (join L x y) = get L y"
    using assms(3) by (simp add: induced_order_def)
  have "get L (join L x z) = get L (join L x (join L y z))"
    by (rule respects_right [OF assms(2)]) (simp add: yz)
  also have "\<dots> = get L (join L (join L x y) z)"
    using assms(1) by (simp add: join_associative_def)
  also have "\<dots> = get L (join L y z)"
    by (rule respects_left [OF assms(2)]) (rule xy)
  also have "\<dots> = get L z"
    by (rule yz)
  finally show ?thesis
    by (simp add: induced_order_def)
qed

section \<open>The claims\<close>

subsection \<open>The derived operators\<close>

text \<open>
  C1. For two live objects \<open>l\<close> and \<open>r\<close> of an implementing class, \<open>l <= r\<close>
  returns, and it returns true if and only if joining \<open>r\<close> into a copy of \<open>l\<close> gives an
  object whose \<^verbatim>\<open>get\<close> equals the \<^verbatim>\<open>get\<close> of \<open>r\<close>: the operator computes the
  order that \<open>join\<close> induces.
\<close>

theorem operator_le_induced_order:
  assumes "l < length st" and "r < length st"
  shows "map_option fst (operator_le L st l r)
           = Some (get L (join L (st ! l) (st ! r)) = get L (st ! r))
       \<and> map_option fst (operator_le L st l r) = Some (induced_order L (st ! l) (st ! r))"
  using assms by (simp add: operator_le_Some induced_order_def)

theorem operator_le_induced_order_witness:
  "(0::nat) < length [3, 7 :: int] \<and> (1::nat) < length [3, 7 :: int]
   \<and> map_option fst (operator_le MaxLattice [3, 7] 0 1) = Some True
   \<and> map_option fst (operator_le MaxLattice [3, 7] 1 0) = Some False"
  using operator_le_induced_order [of 0 "[3, 7]" 1 MaxLattice]
    operator_le_induced_order [of 1 "[3, 7]" 0 MaxLattice]
  by (simp add: MaxLattice_def)

text \<open>
  C2. For two live objects \<open>l\<close> and \<open>r\<close> of an implementing class, \<open>l == r\<close>
  returns true if and only if \<open>l.get() == r.get()\<close>: the answer is a function of the two
  observable values only, whatever the positions of the objects and the rest of their
  states.
\<close>

theorem operator_eq_get:
  assumes "l < length st" and "r < length st"
  shows "operator_eq L st l r = Some (get L (st ! l) = get L (st ! r), st)"
  using assms by (rule operator_eq_Some)

theorem operator_eq_get_witness:
  "(0::nat) < length [5, 5, 3 :: int] \<and> (1::nat) < length [5, 5, 3 :: int]
   \<and> (2::nat) < length [5, 5, 3 :: int]
   \<and> operator_eq MaxLattice [5, 5, 3] 0 1 = Some (True, [5, 5, 3])
   \<and> operator_eq MaxLattice [5, 5, 3] 0 2 = Some (False, [5, 5, 3])"
  using operator_eq_get [of 0 "[5, 5, 3]" 1 MaxLattice]
    operator_eq_get [of 0 "[5, 5, 3]" 2 MaxLattice]
  by (simp add: MaxLattice_def)

text \<open>
  \<open>l != r\<close> is not the negation of \<open>l == r\<close> for every domain type: the header
  compares with the \<^verbatim>\<open>!=\<close> of \<open>T\<close>. On a null and a 1 in \<open>NullableMax\<close> both
  \<open>l == r\<close> and \<open>l != r\<close> return false.
\<close>

theorem operator_ne_negates_eq_counterexample:
  "operator_eq NullableMax [None, Some 1] 0 1 = Some (False, [None, Some 1])
   \<and> operator_ne nullable_ne NullableMax [None, Some 1] 0 1 = Some (False, [None, Some 1])"
  by (simp add: operator_eq_Some operator_ne_Some NullableMax_def nullable_ne_def)

text \<open>
  C3, amended. For every domain type whose \<^verbatim>\<open>!=\<close> is the logical negation of its
  \<^verbatim>\<open>==\<close>, \<open>l != r\<close> returns the negation of what \<open>l == r\<close> returns, for every
  pair of operands and every implementing class (and it has no result exactly when
  \<open>==\<close> has none).
\<close>

theorem operator_ne_negates_eq:
  assumes "ne_complements_eq ne"
  shows "operator_ne ne L st l r
           = map_option (\<lambda>(b, s). (\<not> b, s)) (operator_eq L st l r)"
proof (cases "l < length st \<and> r < length st")
  case True
  have "ne (get L (st ! l)) (get L (st ! r)) = (get L (st ! l) \<noteq> get L (st ! r))"
    using assms by (simp add: ne_complements_eq_def)
  with True show ?thesis
    by (simp add: operator_ne_Some operator_eq_Some)
next
  case False
  then have "operator_ne ne L st l r = None" and "operator_eq L st l r = None"
    by (rule operator_ne_None, rule operator_eq_None)
  then show ?thesis
    by simp
qed

theorem operator_ne_negates_eq_witness:
  "ne_complements_eq (\<lambda>a b :: int. a \<noteq> b)
   \<and> operator_ne (\<lambda>a b. a \<noteq> b) MaxLattice [5, 5, 3] 0 1 = Some (False, [5, 5, 3])
   \<and> operator_ne (\<lambda>a b. a \<noteq> b) MaxLattice [5, 5, 3] 0 2 = Some (True, [5, 5, 3])
   \<and> operator_ne (\<lambda>a b. a \<noteq> b) MaxLattice [5, 5, 3] 0 3 = None"
proof -
  have c: "ne_complements_eq (\<lambda>a b :: int. a \<noteq> b)"
    by (simp add: ne_complements_eq_def)
  show ?thesis
    using operator_ne_negates_eq [OF c, of MaxLattice "[5, 5, 3]" 0 1]
      operator_ne_negates_eq [OF c, of MaxLattice "[5, 5, 3]" 0 2]
      operator_ne_negates_eq [OF c, of MaxLattice "[5, 5, 3]" 0 3] c
    by (simp add: operator_eq_def call_get_def MaxLattice_def)
qed

text \<open>
  C4. \<open>l <= r\<close> mutates neither operand: the join runs on the parameter object, a
  copy of the left operand, and when the operator returns every object of the caller,
  the two operands among them, is in the state it had before the call.
\<close>

theorem operator_le_preserves_operands:
  assumes "l < length st" and "r < length st"
  shows "\<exists>b st'. operator_le L st l r = Some (b, st') \<and> st' = st
           \<and> get L (st' ! l) = get L (st ! l) \<and> get L (st' ! r) = get L (st ! r)"
  using assms by (simp add: operator_le_Some)

theorem operator_le_preserves_operands_witness:
  "(0::nat) < length [3, 7 :: int] \<and> (1::nat) < length [3, 7 :: int]
   \<and> map_option snd (operator_le MaxLattice [3, 7] 0 1) = Some [3, 7]"
  using operator_le_preserves_operands [of 0 "[3, 7]" 1 MaxLattice]
  by auto

subsection \<open>The two methods\<close>

text \<open>
  C5. A call \<open>self.join(other)\<close> on live objects returns and mutates the receiver
  only: every object but the receiver keeps its state. So when \<open>other\<close> is another
  instance than the receiver (as the header's comment has it), its observable value is
  the same before and after the call, whatever the implementing class. In \<open>x.join(x)\<close>
  the operand \<open>other\<close> is the receiver and becomes \<open>join(x, x)\<close>; its observable value
  is then the same by the idempotence that the spec guarantees of every implementation.
\<close>

theorem call_join_frame:
  assumes "self < length st" and "other < length st"
  shows "\<exists>st'. call_join L st self other = Some st'
           \<and> length st' = length st
           \<and> (\<forall>p. p \<noteq> self \<longrightarrow> st' ! p = st ! p)
           \<and> (other \<noteq> self \<longrightarrow> get L (st' ! other) = get L (st ! other))
           \<and> (join_idempotent L \<longrightarrow> get L (st' ! other) = get L (st ! other))"
proof -
  let ?st' = "st[self := join L (st ! self) (st ! other)]"
  have "call_join L st self other = Some ?st'"
    using assms by (rule call_join_Some)
  moreover have "length ?st' = length st"
    by simp
  moreover have frame: "\<forall>p. p \<noteq> self \<longrightarrow> ?st' ! p = st ! p"
    by simp
  moreover have "other \<noteq> self \<longrightarrow> get L (?st' ! other) = get L (st ! other)"
    by simp
  moreover have "join_idempotent L \<longrightarrow> get L (?st' ! other) = get L (st ! other)"
  proof
    assume idem: "join_idempotent L"
    show "get L (?st' ! other) = get L (st ! other)"
    proof (cases "other = self")
      case True
      have "get L (join L (st ! self) (st ! self)) = get L (st ! self)"
        using idem by (simp add: join_idempotent_def)
      with True assms(1) show ?thesis
        by simp
    next
      case False
      then show ?thesis
        by simp
    qed
  qed
  ultimately show ?thesis
    by blast
qed

theorem call_join_frame_witness:
  "(0::nat) < length [3, 7 :: int] \<and> (1::nat) < length [3, 7 :: int]
   \<and> (1::nat) \<noteq> 0 \<and> join_idempotent MaxLattice
   \<and> call_join MaxLattice [3, 7] 0 1 = Some [7, 7]
   \<and> get MaxLattice ([7, 7] ! 1) = get MaxLattice ([3, 7] ! 1)
   \<and> call_join MaxLattice [3, 7] 1 1 = Some [3, 7]"
  using call_join_frame [of 0 "[3, 7]" 1 MaxLattice]
    call_join_frame [of 1 "[3, 7]" 1 MaxLattice] MaxLattice_idempotent
  by (simp add: call_join_def MaxLattice_def)

text \<open>
  C9. \<^verbatim>\<open>get\<close> is read-only: a call leaves the store as it was, and two calls on
  the same object with no \<^verbatim>\<open>join\<close> in between return the same value.
\<close>

theorem get_read_only:
  assumes "self < length st"
  shows "do {
           (a, st1) \<leftarrow> call_get L st self;
           (b, st2) \<leftarrow> call_get L st1 self;
           Some (a, st1, b, st2)
         } = Some (get L (st ! self), st, get L (st ! self), st)"
  using assms by (simp add: call_get_Some)

theorem get_read_only_witness:
  "(1::nat) < length [3, 7 :: int]
   \<and> do {
         (a, st1) \<leftarrow> call_get MaxLattice [3, 7] 1;
         (b, st2) \<leftarrow> call_get MaxLattice st1 1;
         Some (a, st1, b, st2)
       } = Some (7, [3, 7], 7, [3, 7])"
  using get_read_only [of 1 "[3, 7]" MaxLattice]
  by (simp add: MaxLattice_def)

subsection \<open>The order laws\<close>

text \<open>
  C6. Reflexivity: for an implementing class whose \<open>join\<close> is idempotent,
  \<open>x <= x\<close> returns true for every live object \<open>x\<close>.
\<close>

theorem operator_le_reflexive:
  assumes "join_idempotent L" and "x < length st"
  shows "operator_le L st x x = Some (True, st)"
  using assms by (simp add: operator_le_Some induced_order_refl)

theorem operator_le_reflexive_witness:
  "join_idempotent MaxLattice \<and> (0::nat) < length [5 :: int]
   \<and> operator_le MaxLattice [5] 0 0 = Some (True, [5])"
  using operator_le_reflexive [of MaxLattice 0 "[5]"] MaxLattice_idempotent
  by simp

text \<open>
  C7. Antisymmetry: for an implementing class whose \<open>join\<close> is commutative, if
  \<open>x <= y\<close> and \<open>y <= x\<close> both return true then \<open>x == y\<close> returns true.
\<close>

theorem operator_le_antisymmetric:
  assumes "join_commutative L"
    and "operator_le L st x y = Some (True, st1)"
    and "operator_le L st y x = Some (True, st2)"
  shows "operator_eq L st x y = Some (True, st)"
proof -
  note xy = operator_le_TrueD [OF assms(2)] and yx = operator_le_TrueD [OF assms(3)]
  have "get L (st ! x) = get L (st ! y)"
    using assms(1) xy(3) yx(3) by (rule induced_order_antisym)
  then show ?thesis
    using xy(1,2) by (simp add: operator_eq_Some)
qed

theorem operator_le_antisymmetric_witness:
  "join_commutative MaxLattice
   \<and> operator_le MaxLattice [5, 5] 0 1 = Some (True, [5, 5])
   \<and> operator_le MaxLattice [5, 5] 1 0 = Some (True, [5, 5])
   \<and> operator_eq MaxLattice [5, 5] 0 1 = Some (True, [5, 5])"
proof -
  have le1: "operator_le MaxLattice [5, 5] 0 1 = Some (True, [5, 5])"
    by (simp add: operator_le_Some induced_order_def MaxLattice_def)
  have le2: "operator_le MaxLattice [5, 5] 1 0 = Some (True, [5, 5])"
    by (simp add: operator_le_Some induced_order_def MaxLattice_def)
  show ?thesis
    using operator_le_antisymmetric [OF MaxLattice_commutative le1 le2]
      MaxLattice_commutative le1 le2
    by simp
qed

text \<open>
  The three laws alone do not give monotonicity. \<open>Mod3Counter\<close> is idempotent,
  commutative and associative in the sense of the header (up to \<^verbatim>\<open>==\<close>, the equality
  of \<^verbatim>\<open>get\<close>), and yet with \<open>x\<close> holding 2 and \<open>y\<close> holding 1 the comparison
  \<open>x <= join(x, y)\<close> returns false: \<open>join(x, y)\<close> holds 0, the copy of \<open>x\<close> joined with
  it holds 2, and \<^verbatim>\<open>get\<close> tells 2 from 0.
\<close>

theorem join_monotone_counterexample:
  "join_idempotent Mod3Counter \<and> join_commutative Mod3Counter
   \<and> join_associative Mod3Counter
   \<and> operator_le Mod3Counter [2, 1, join Mod3Counter 2 1] 0 2
       = Some (False, [2, 1, join Mod3Counter 2 1])"
proof -
  have "operator_le Mod3Counter [2, 1, join Mod3Counter 2 1] 0 2
          = Some (False, [2, 1, join Mod3Counter 2 1])"
    by (simp add: operator_le_Some induced_order_def Mod3Counter_def)
  then show ?thesis
    by (simp only: Mod3Counter_idempotent Mod3Counter_commutative
          Mod3Counter_associative simp_thms)
qed

text \<open>
  C8, amended. Monotonicity: for an implementing class whose \<open>join\<close> is idempotent,
  commutative and associative and respects the observable value, \<open>x <= join(x, y)\<close>
  and \<open>y <= join(x, y)\<close> both return true.
\<close>

theorem join_monotone:
  assumes "join_idempotent L" and "join_commutative L" and "join_associative L"
    and "join_respects_get L"
    and "x < length st" and "y < length st" and "j < length st"
    and "st ! j = join L (st ! x) (st ! y)"
  shows "operator_le L st x j = Some (True, st) \<and> operator_le L st y j = Some (True, st)"
proof -
  have "induced_order L (st ! x) (st ! j)"
    using assms(1,3,4,8) by (simp add: induced_order_join_left)
  moreover have "induced_order L (st ! y) (st ! j)"
    using assms(1,2,3,4,8) by (simp add: induced_order_join_right)
  ultimately show ?thesis
    using assms(5,6,7) by (simp add: operator_le_Some)
qed

theorem join_monotone_witness:
  "join_idempotent MaxLattice \<and> join_commutative MaxLattice
   \<and> join_associative MaxLattice \<and> join_respects_get MaxLattice
   \<and> (0::nat) < length [3, 7, 7 :: int] \<and> (1::nat) < length [3, 7, 7 :: int]
   \<and> (2::nat) < length [3, 7, 7 :: int]
   \<and> [3, 7, 7] ! 2 = join MaxLattice ([3, 7, 7] ! 0) ([3, 7, 7] ! 1)
   \<and> operator_le MaxLattice [3, 7, 7] 0 2 = Some (True, [3, 7, 7])
   \<and> operator_le MaxLattice [3, 7, 7] 1 2 = Some (True, [3, 7, 7])"
proof -
  have j: "[3, 7, 7] ! 2 = join MaxLattice ([3, 7, 7] ! 0) ([3, 7, 7] ! 1)"
    by (simp add: MaxLattice_def)
  show ?thesis
    using join_monotone [OF MaxLattice_idempotent MaxLattice_commutative
        MaxLattice_associative MaxLattice_respects_get _ _ _ j]
      MaxLattice_idempotent MaxLattice_commutative MaxLattice_associative
      MaxLattice_respects_get j
    by simp
qed

text \<open>
  The three laws alone do not give transitivity either. \<open>ParityOfMax\<close> satisfies them
  (its \<open>join\<close> is the maximum), and with \<open>x\<close>, \<open>y\<close>, \<open>z\<close> holding 1, 2, 0 both
  \<open>x <= y\<close> and \<open>y <= z\<close> return true while \<open>x <= z\<close> returns false.
\<close>

theorem operator_le_transitive_counterexample:
  "join_idempotent ParityOfMax \<and> join_commutative ParityOfMax
   \<and> join_associative ParityOfMax
   \<and> operator_le ParityOfMax [1, 2, 0] 0 1 = Some (True, [1, 2, 0])
   \<and> operator_le ParityOfMax [1, 2, 0] 1 2 = Some (True, [1, 2, 0])
   \<and> operator_le ParityOfMax [1, 2, 0] 0 2 = Some (False, [1, 2, 0])"
proof -
  have "operator_le ParityOfMax [1, 2, 0] 0 1 = Some (True, [1, 2, 0])"
    and "operator_le ParityOfMax [1, 2, 0] 1 2 = Some (True, [1, 2, 0])"
    and "operator_le ParityOfMax [1, 2, 0] 0 2 = Some (False, [1, 2, 0])"
    by (simp_all add: operator_le_Some induced_order_def ParityOfMax_def)
  then show ?thesis
    by (simp only: ParityOfMax_idempotent ParityOfMax_commutative
          ParityOfMax_associative simp_thms)
qed

text \<open>
  C10, amended. Transitivity: for an implementing class whose \<open>join\<close> is
  idempotent, commutative and associative and respects the observable value, if
  \<open>x <= y\<close> and \<open>y <= z\<close> both return true then \<open>x <= z\<close> returns true.
\<close>

theorem operator_le_transitive:
  assumes "join_idempotent L" and "join_commutative L" and "join_associative L"
    and "join_respects_get L"
    and "operator_le L st x y = Some (True, st1)"
    and "operator_le L st y z = Some (True, st2)"
  shows "operator_le L st x z = Some (True, st)"
proof -
  note xy = operator_le_TrueD [OF assms(5)] and yz = operator_le_TrueD [OF assms(6)]
  have "induced_order L (st ! x) (st ! z)"
    using assms(3,4) xy(3) yz(3) by (rule induced_order_trans)
  then show ?thesis
    using xy(1) yz(2) by (simp add: operator_le_Some)
qed

theorem operator_le_transitive_witness:
  "join_idempotent MaxLattice \<and> join_commutative MaxLattice
   \<and> join_associative MaxLattice \<and> join_respects_get MaxLattice
   \<and> operator_le MaxLattice [2, 4, 9] 0 1 = Some (True, [2, 4, 9])
   \<and> operator_le MaxLattice [2, 4, 9] 1 2 = Some (True, [2, 4, 9])
   \<and> operator_le MaxLattice [2, 4, 9] 0 2 = Some (True, [2, 4, 9])"
proof -
  have le1: "operator_le MaxLattice [2, 4, 9] 0 1 = Some (True, [2, 4, 9])"
    by (simp add: operator_le_Some induced_order_def MaxLattice_def)
  have le2: "operator_le MaxLattice [2, 4, 9] 1 2 = Some (True, [2, 4, 9])"
    by (simp add: operator_le_Some induced_order_def MaxLattice_def)
  show ?thesis
    using operator_le_transitive [OF MaxLattice_idempotent MaxLattice_commutative
        MaxLattice_associative MaxLattice_respects_get le1 le2]
      MaxLattice_idempotent MaxLattice_commutative MaxLattice_associative
      MaxLattice_respects_get le1 le2
    by simp
qed

end
